theory Spec2Isabelle
  imports Main "HOL-Library.AList"
begin

section \<open>JavaScript values\<close>

text \<open>
  The values that flow through the library. An object is the list of its own enumerable
  properties in insertion order; the first binding of a key is the property (a JavaScript
  object has one binding per key). Numbers are restricted to the integers: identifiers and
  counters are all the library's code looks at. Containers carry a tag for their backing:
  a plain object or array, or a persistent (immutable) map or list. Two more values occur
  in normalized data only: \<open>JRef\<close>, the reference pair (type name, primary key) that stands
  for an entity in a normalized result, and \<open>JTombstone\<close>, the marker of an entity table
  entry scheduled for removal.
\<close>

datatype rep = Plain | Persistent

datatype jsval =
    JUndefined
  | JNull
  | JBool bool
  | JNum int
  | JStr string
  | JObj rep "(string \<times> jsval) list"
  | JArr rep "jsval list"
  | JRef string string
  | JTombstone

type_synonym props = "(string \<times> jsval) list"

definition hasOwnProperty :: "props \<Rightarrow> string \<Rightarrow> bool" where
  "hasOwnProperty obj k = (map_of obj k \<noteq> None)"

definition get_prop :: "props \<Rightarrow> string \<Rightarrow> jsval" where
  "get_prop obj k = (case map_of obj k of None \<Rightarrow> JUndefined | Some v \<Rightarrow> v)"

definition Object_keys :: "props \<Rightarrow> string list" where
  "Object_keys obj = remdups (map fst obj)"

fun truthy :: "jsval \<Rightarrow> bool" where
  "truthy JUndefined = False"
| "truthy JNull = False"
| "truthy (JBool b) = b"
| "truthy (JNum n) = (n \<noteq> 0)"
| "truthy (JStr s) = (s \<noteq> [])"
| "truthy (JObj r ps) = True"
| "truthy (JArr r xs) = True"
| "truthy (JRef t k) = True"
| "truthy JTombstone = True"

fun typeof :: "jsval \<Rightarrow> string" where
  "typeof JUndefined = ''undefined''"
| "typeof JNull = ''object''"
| "typeof (JBool b) = ''boolean''"
| "typeof (JNum n) = ''number''"
| "typeof (JStr s) = ''string''"
| "typeof (JObj r ps) = ''object''"
| "typeof (JArr r xs) = ''object''"
| "typeof (JRef t k) = ''object''"
| "typeof JTombstone = ''symbol''"

text \<open>The characters of a value already known to be a string.\<close>

fun str_of :: "jsval \<Rightarrow> string" where
  "str_of (JStr s) = s"
| "str_of _ = []"

definition endsWith :: "string \<Rightarrow> string \<Rightarrow> bool" where
  "endsWith s suffix = (length suffix \<le> length s \<and> drop (length s - length suffix) s = suffix)"


section \<open>SimpleResource\<close>

text \<open>
  \<open>Method\<close> is imported from \<open>./types\<close>, \<open>NotImplementedError\<close> from \<open>./errors\<close> and
  \<open>FetchOptions\<close> from the core package; \<open>Response\<close> is the platform's. A promise is
  modelled by the way it settles.
\<close>

datatype Method = M_get | M_post | M_put | M_patch | M_delete | M_options

datatype error = NotImplementedError

typedecl FetchOptions

typedecl Response

datatype 'a promise = Fulfilled 'a | Rejected jsval

fun then_promise :: "'a promise \<Rightarrow> ('a \<Rightarrow> 'b) \<Rightarrow> 'b promise" where
  "then_promise (Fulfilled x) f = Fulfilled (f x)"
| "then_promise (Rejected e) f = Rejected e"

text \<open>
  A class deriving from \<open>SimpleResource\<close>: the static members every subclass supplies
  (\<open>name\<close>, \<open>urlRoot\<close>, and \<open>pk\<close>, which the core's entity class leaves abstract), and for
  each overridable static method either the subclass's own implementation or \<open>None\<close>, in
  which case the method of \<open>SimpleResource\<close> below is inherited.
\<close>

record static =
  name :: string
  urlRoot :: string
  pk :: "props \<Rightarrow> string option"
  url_override :: "(props \<Rightarrow> string) option"
  listUrl_override :: "(props option \<Rightarrow> string) option"
  fetch_override :: "(Method \<Rightarrow> string \<Rightarrow> jsval option \<Rightarrow> error + jsval promise) option"
  fetchResponse_override ::
    "(Method \<Rightarrow> string \<Rightarrow> jsval option \<Rightarrow> error + Response promise) option"
  getFetchOptions_override :: "(FetchOptions option) option"

definition toString :: "static \<Rightarrow> string" where
  "toString this = name this @ ''::'' @ urlRoot this"

definition key :: "static \<Rightarrow> string" where
  "key this = urlRoot this"

definition SimpleResource_url :: "static \<Rightarrow> props \<Rightarrow> string" where
  "SimpleResource_url this urlParams =
     (if hasOwnProperty urlParams ''url'' \<and> truthy (get_prop urlParams ''url'')
         \<and> typeof (get_prop urlParams ''url'') = ''string''
      then str_of (get_prop urlParams ''url'')
      else case pk this urlParams of
        Some k \<Rightarrow>
          (if endsWith (urlRoot this) ''/'' then urlRoot this @ k else urlRoot this @ ''/'' @ k)
      | None \<Rightarrow> urlRoot this)"

text \<open>
  \<open>paramsToString\<close> is imported from \<open>./paramsToString\<close>; it is the parameter \<open>pts\<close>.
  An omitted argument (\<open>None\<close>) takes the default \<open>{}\<close>.
\<close>

definition SimpleResource_listUrl :: "(props \<Rightarrow> string) \<Rightarrow> static \<Rightarrow> props option \<Rightarrow> string" where
  "SimpleResource_listUrl pts this arg =
     (let searchParams = (case arg of None \<Rightarrow> [] | Some ps \<Rightarrow> ps) in
      if length (Object_keys searchParams) \<noteq> 0
      then urlRoot this @ ''?'' @ pts searchParams
      else urlRoot this)"

definition SimpleResource_fetch :: "Method \<Rightarrow> string \<Rightarrow> jsval option \<Rightarrow> error + jsval promise" where
  "SimpleResource_fetch method url body = Inl NotImplementedError"

definition SimpleResource_fetchResponse ::
  "Method \<Rightarrow> string \<Rightarrow> jsval option \<Rightarrow> error + Response promise" where
  "SimpleResource_fetchResponse method url body = Inl NotImplementedError"

definition SimpleResource_getFetchOptions :: "FetchOptions option" where
  "SimpleResource_getFetchOptions = None"

text \<open>Static method calls on \<open>this\<close>: the subclass's override when there is one.\<close>

definition this_url :: "static \<Rightarrow> props \<Rightarrow> string" where
  "this_url this params =
     (case url_override this of None \<Rightarrow> SimpleResource_url this params | Some f \<Rightarrow> f params)"

definition this_listUrl :: "(props \<Rightarrow> string) \<Rightarrow> static \<Rightarrow> props option \<Rightarrow> string" where
  "this_listUrl pts this arg =
     (case listUrl_override this of None \<Rightarrow> SimpleResource_listUrl pts this arg | Some f \<Rightarrow> f arg)"

definition this_fetch :: "static \<Rightarrow> Method \<Rightarrow> string \<Rightarrow> jsval option \<Rightarrow> error + jsval promise" where
  "this_fetch this method url body =
     (case fetch_override this of None \<Rightarrow> SimpleResource_fetch method url body
      | Some f \<Rightarrow> f method url body)"

definition this_fetchResponse ::
  "static \<Rightarrow> Method \<Rightarrow> string \<Rightarrow> jsval option \<Rightarrow> error + Response promise" where
  "this_fetchResponse this method url body =
     (case fetchResponse_override this of None \<Rightarrow> SimpleResource_fetchResponse method url body
      | Some f \<Rightarrow> f method url body)"

definition this_getFetchOptions :: "static \<Rightarrow> FetchOptions option" where
  "this_getFetchOptions this =
     (case getFetchOptions_override this of None \<Rightarrow> SimpleResource_getFetchOptions
      | Some opts \<Rightarrow> opts)"

definition getFetchInit :: "static \<Rightarrow> FetchOptions option" where
  "getFetchInit this = this_getFetchOptions this"

subsection \<open>Fetch shapes\<close>

text \<open>
  The \<open>schema\<close> member of a shape is the class itself (\<open>this\<close>), the array shorthand
  \<open>[this]\<close>, or \<open>new schemas.Delete(this)\<close>.
\<close>

datatype shape_kind = Read | Mutate

datatype shape_schema = This static | ArrayOf shape_schema | DeleteOf static

text \<open>
  A read shape's \<open>fetch\<close> takes the params only; it is given the same type as a mutation's
  and ignores the body.
\<close>

record shape =
  type :: shape_kind
  schema :: shape_schema
  options :: "FetchOptions option"
  getFetchKey :: "props \<Rightarrow> string"
  fetch :: "props \<Rightarrow> jsval option \<Rightarrow> error + jsval promise"

definition detailShape :: "static \<Rightarrow> shape" where
  "detailShape this =
     \<lparr> type = Read,
       schema = This this,
       options = this_getFetchOptions this,
       getFetchKey = (\<lambda>params. ''GET '' @ this_url this params),
       fetch = (\<lambda>params body. this_fetch this M_get (this_url this params) None) \<rparr>"

definition listShape :: "(props \<Rightarrow> string) \<Rightarrow> static \<Rightarrow> shape" where
  "listShape pts this =
     \<lparr> type = Read,
       schema = ArrayOf (This this),
       options = this_getFetchOptions this,
       getFetchKey = (\<lambda>params. ''GET '' @ this_listUrl pts this (Some params)),
       fetch = (\<lambda>params body. this_fetch this M_get (this_listUrl pts this (Some params)) None) \<rparr>"

definition createShape :: "(props \<Rightarrow> string) \<Rightarrow> static \<Rightarrow> shape" where
  "createShape pts this =
     \<lparr> type = Mutate,
       schema = This this,
       options = this_getFetchOptions this,
       getFetchKey = (\<lambda>params. ''POST '' @ this_listUrl pts this (Some params)),
       fetch = (\<lambda>params body. this_fetch this M_post (this_listUrl pts this (Some params)) body) \<rparr>"

definition updateShape :: "static \<Rightarrow> shape" where
  "updateShape this =
     \<lparr> type = Mutate,
       schema = This this,
       options = this_getFetchOptions this,
       getFetchKey = (\<lambda>params. ''PUT '' @ this_url this params),
       fetch = (\<lambda>params body. this_fetch this M_put (this_url this params) body) \<rparr>"

definition partialUpdateShape :: "static \<Rightarrow> shape" where
  "partialUpdateShape this =
     \<lparr> type = Mutate,
       schema = This this,
       options = this_getFetchOptions this,
       getFetchKey = (\<lambda>params. ''PATCH '' @ this_url this params),
       fetch = (\<lambda>params body. this_fetch this M_patch (this_url this params) body) \<rparr>"

definition deleteShape :: "static \<Rightarrow> shape" where
  "deleteShape this =
     \<lparr> type = Mutate,
       schema = DeleteOf this,
       options = this_getFetchOptions this,
       getFetchKey = (\<lambda>params. ''DELETE '' @ this_url this params),
       fetch = (\<lambda>params body.
         case this_fetch this M_delete (this_url this params) None of
           Inl e \<Rightarrow> Inl e
         | Inr p \<Rightarrow> Inr (then_promise p (\<lambda>_. JObj Plain params))) \<rparr>"

text \<open>A subclass used to exercise the theorems: users under \<open>/users\<close>, keyed by \<open>id\<close>.\<close>

definition id_pk :: "props \<Rightarrow> string option" where
  "id_pk ps = (case map_of ps ''id'' of Some (JStr s) \<Rightarrow> Some s | _ \<Rightarrow> None)"

definition UserResource :: static where
  "UserResource =
     \<lparr> name = ''UserResource'', urlRoot = ''/users'', pk = id_pk,
       url_override = None, listUrl_override = None, fetch_override = None,
       fetchResponse_override = None, getFetchOptions_override = None \<rparr>"



section \<open>Schemas, normalization and denormalization\<close>

subsection \<open>Reading and writing members\<close>

text \<open>
  Modelled from the spec: the abstract capability of section 4.3 through which the
  traversals touch a container, whatever its backing: get, test, set and delete a member
  by key. Both backings answer alike; a value that is no object has no members.
\<close>

fun get_member :: "jsval \<Rightarrow> string \<Rightarrow> jsval" where
  "get_member (JObj r ps) k = (case map_of ps k of None \<Rightarrow> JUndefined | Some v \<Rightarrow> v)"
| "get_member x k = JUndefined"

fun has_member :: "jsval \<Rightarrow> string \<Rightarrow> bool" where
  "has_member (JObj r ps) k = (map_of ps k \<noteq> None)"
| "has_member x k = False"

fun set_member :: "jsval \<Rightarrow> string \<Rightarrow> jsval \<Rightarrow> jsval" where
  "set_member (JObj r ps) k v = JObj r (AList.update k v ps)"
| "set_member x k v = x"

fun delete_member :: "jsval \<Rightarrow> string \<Rightarrow> jsval" where
  "delete_member (JObj r ps) k = JObj r (AList.delete k ps)"
| "delete_member x k = x"

fun members_of :: "jsval \<Rightarrow> props" where
  "members_of (JObj r ps) = ps"
| "members_of x = []"

definition nullish :: "jsval \<Rightarrow> bool" where
  "nullish v = (v = JNull \<or> v = JUndefined)"

text \<open>
  Modelled from the spec: the two backings of section 4.3. \<open>fromJS\<close>, which the tests
  import from the persistent collections library, turns every container of a value, at
  any depth, into its persistent counterpart.
\<close>

primrec retag :: "rep \<Rightarrow> jsval \<Rightarrow> jsval" where
  "retag b JUndefined = JUndefined"
| "retag b JNull = JNull"
| "retag b (JBool x) = JBool x"
| "retag b (JNum n) = JNum n"
| "retag b (JStr s) = JStr s"
| "retag b (JObj r ps) = JObj b (map (map_prod id (retag b)) ps)"
| "retag b (JArr r xs) = JArr b (map (retag b) xs)"
| "retag b (JRef t k) = JRef t k"
| "retag b JTombstone = JTombstone"

definition fromJS :: "jsval \<Rightarrow> jsval" where
  "fromJS = retag Persistent"

text \<open>The key under which a number is filed: its decimal digits, as \<open>String(n)\<close> gives.\<close>

fun decimal :: "nat \<Rightarrow> string" where
  "decimal n = (if 10 \<le> n then decimal (n div 10) else []) @ [''0123456789'' ! (n mod 10)]"

declare decimal.simps [simp del]

definition key_of_number :: "int \<Rightarrow> string" where
  "key_of_number i = (if 0 \<le> i then decimal (nat i) else CHR ''-'' # decimal (nat (- i)))"

subsection \<open>Schemas\<close>

text \<open>
  Modelled from the spec: the schema classes (\<open>schema.Entity\<close>, \<open>schema.Object\<close> and the
  others, and \<open>schemas.Delete\<close>) are imported from elsewhere in the package. Section 3 of
  the specification gives the closed set of variants: an Entity declares a type name, a
  primary-key function over the raw attributes and the schemas of its nested fields; a
  Composite maps member names to member schemas; a Collection and a Mapping have one member
  schema; a Union has a discriminator and the schemas it selects among. Section 4.4 adds
  the tombstone marker that wraps the entity of a delete. A primary-key function that
  raises is not told apart from one that returns \<open>undefined\<close>: both are \<open>None\<close>.
\<close>

datatype schema =
    Entity string "props \<Rightarrow> string option" "(string \<times> schema) list"
  | Composite "(string \<times> schema) list"
  | Collection schema
  | Mapping schema
  | Union "jsval \<Rightarrow> string option" "(string \<times> schema) list"
  | Delete schema

text \<open>
  Modelled from the spec: how the \<open>schema\<close> member of a shape is read as a schema. The
  resource is an Entity whose type name is its \<open>key\<close> and whose primary key is its \<open>pk\<close>
  (no nested field is declared by \<open>SimpleResource\<close>); the array shorthand is the Collection
  of its element (section 4.4: read-many wraps the entity in a Collection); \<open>schemas.Delete\<close>
  is the tombstone marker around the entity.
\<close>

fun schema_of :: "shape_schema \<Rightarrow> schema" where
  "schema_of (This T) = Entity (key T) (pk T) []"
| "schema_of (ArrayOf s) = Collection (schema_of s)"
| "schema_of (DeleteOf T) = Delete (Entity (key T) (pk T) [])"

subsection \<open>The entity table\<close>

text \<open>
  Modelled from the spec: the entity table of section 3, a container from type name to a
  container from primary key to attribute record, read and written through the member
  operations. Merging is shallow: the new record's fields win, fields it lacks are kept
  (section 4.1).
\<close>

definition entity_at :: "jsval \<Rightarrow> string \<Rightarrow> string \<Rightarrow> jsval" where
  "entity_at tbl t k = get_member (get_member tbl t) k"

definition put_entity :: "jsval \<Rightarrow> string \<Rightarrow> string \<Rightarrow> jsval \<Rightarrow> jsval" where
  "put_entity tbl t k v =
     set_member tbl t
       (set_member (if has_member tbl t then get_member tbl t else JObj Plain []) k v)"

fun merge_attrs :: "jsval \<Rightarrow> jsval \<Rightarrow> jsval" where
  "merge_attrs (JObj r ps) (JObj r' qs) = JObj r (fold (\<lambda>(f, v). AList.update f v) qs ps)"
| "merge_attrs old new = new"

definition add_entity :: "jsval \<Rightarrow> string \<Rightarrow> string \<Rightarrow> jsval \<Rightarrow> jsval" where
  "add_entity tbl t k attrs = put_entity tbl t k (merge_attrs (entity_at tbl t k) attrs)"

text \<open>
  Modelled from the spec: the shape section 3 gives the table, an object whose members,
  one per type name, are objects.
\<close>

definition is_table :: "jsval \<Rightarrow> bool" where
  "is_table tbl =
     (case tbl of
        JObj r es \<Rightarrow> list_all (\<lambda>e. case snd e of JObj r' rows \<Rightarrow> True | _ \<Rightarrow> False) es
      | _ \<Rightarrow> False)"

definition lookup_entity :: "jsval \<Rightarrow> string \<Rightarrow> string \<Rightarrow> jsval option" where
  "lookup_entity tbl t k =
     (case entity_at tbl t k of JObj r ps \<Rightarrow> Some (JObj r ps) | _ \<Rightarrow> None)"

subsection \<open>Normalization\<close>

text \<open>
  Modelled from the spec: \<open>normalize\<close> and the \<open>normalize\<close> operation of each schema
  variant (sections 4.1, 4.2 and 7). The table is threaded through the traversal and
  every entity is merged into it as it is met. A \<open>null\<close> or \<open>undefined\<close> value has nothing
  to normalize and stays as it is. An Entity computes its key from the raw attributes,
  fails with \<open>SchemaError\<close> when there is none, normalizes its declared nested fields,
  merges the record into the table and returns the reference pair. A Composite and a
  Mapping normalize their members and drop those whose normalized value is \<open>null\<close> or
  \<open>undefined\<close>; members without a schema are not touched. A Collection normalizes every
  element in order. A Union lets the discriminator pick the branch and fails with
  \<open>SchemaError\<close> when nothing matches. The tombstone marker computes the key of its entity
  and stores the removal marker under it instead of merging. An error aborts the
  traversal, so no partial table is returned.
\<close>

datatype schema_error = SchemaError

function (sequential) normalize_visit :: "schema \<Rightarrow> jsval \<Rightarrow> jsval \<Rightarrow> schema_error + jsval \<times> jsval"
  and normalize_members ::
    "bool \<Rightarrow> (string \<times> schema) list \<Rightarrow> jsval \<Rightarrow> jsval \<Rightarrow> schema_error + jsval \<times> jsval"
  and normalize_elements ::
    "schema \<Rightarrow> jsval list \<Rightarrow> jsval \<Rightarrow> schema_error + jsval list \<times> jsval"
  and normalize_values :: "schema \<Rightarrow> props \<Rightarrow> jsval \<Rightarrow> schema_error + props \<times> jsval"
  and normalize_branch ::
    "(string \<times> schema) list \<Rightarrow> string \<Rightarrow> jsval \<Rightarrow> jsval \<Rightarrow> schema_error + jsval \<times> jsval"
where
  "normalize_visit (Entity t pkf nested) input tbl =
     (if nullish input then Inr (input, tbl)
      else case pkf (members_of input) of
        None \<Rightarrow> Inl SchemaError
      | Some k \<Rightarrow>
          (case normalize_members False nested input tbl of
             Inl e \<Rightarrow> Inl e
           | Inr (attrs, tbl') \<Rightarrow> Inr (JRef t k, add_entity tbl' t k attrs)))"
| "normalize_visit (Composite ms) input tbl =
     (if nullish input then Inr (input, tbl) else normalize_members True ms input tbl)"
| "normalize_visit (Collection s) input tbl =
     (case input of
        JArr r xs \<Rightarrow>
          (case normalize_elements s xs tbl of
             Inl e \<Rightarrow> Inl e
           | Inr (ys, tbl') \<Rightarrow> Inr (JArr r ys, tbl'))
      | _ \<Rightarrow> Inr (input, tbl))"
| "normalize_visit (Mapping s) input tbl =
     (case input of
        JObj r ps \<Rightarrow>
          (case normalize_values s ps tbl of
             Inl e \<Rightarrow> Inl e
           | Inr (qs, tbl') \<Rightarrow> Inr (JObj r qs, tbl'))
      | _ \<Rightarrow> Inr (input, tbl))"
| "normalize_visit (Union d bs) input tbl =
     (if nullish input then Inr (input, tbl)
      else case d input of
        None \<Rightarrow> Inl SchemaError
      | Some b \<Rightarrow> normalize_branch bs b input tbl)"
| "normalize_visit (Delete s) input tbl =
     (if nullish input then Inr (input, tbl)
      else case s of
        Entity t pkf nested \<Rightarrow>
          (case pkf (members_of input) of
             None \<Rightarrow> Inl SchemaError
           | Some k \<Rightarrow> Inr (JRef t k, put_entity tbl t k JTombstone))
      | _ \<Rightarrow> Inl SchemaError)"
| "normalize_members dropping [] obj tbl = Inr (obj, tbl)"
| "normalize_members dropping ((k, s) # ms) obj tbl =
     (case normalize_visit s (get_member obj k) tbl of
        Inl e \<Rightarrow> Inl e
      | Inr (v, tbl') \<Rightarrow>
          normalize_members dropping ms
            (if nullish v then (if dropping then delete_member obj k else obj)
             else set_member obj k v)
            tbl')"
| "normalize_elements s [] tbl = Inr ([], tbl)"
| "normalize_elements s (x # xs) tbl =
     (case normalize_visit s x tbl of
        Inl e \<Rightarrow> Inl e
      | Inr (y, tbl') \<Rightarrow>
          (case normalize_elements s xs tbl' of
             Inl e \<Rightarrow> Inl e
           | Inr (ys, tbl'') \<Rightarrow> Inr (y # ys, tbl'')))"
| "normalize_values s [] tbl = Inr ([], tbl)"
| "normalize_values s ((k, x) # ps) tbl =
     (case normalize_visit s x tbl of
        Inl e \<Rightarrow> Inl e
      | Inr (y, tbl') \<Rightarrow>
          (case normalize_values s ps tbl' of
             Inl e \<Rightarrow> Inl e
           | Inr (qs, tbl'') \<Rightarrow> Inr (if nullish y then qs else (k, y) # qs, tbl'')))"
| "normalize_branch [] b input tbl = Inl SchemaError"
| "normalize_branch ((n, s) # bs) b input tbl =
     (if n = b then normalize_visit s input tbl else normalize_branch bs b input tbl)"

  by pat_completeness auto

termination
  apply (relation "inv_image (less_than <*lex*> less_than)
    (\<lambda>x. case x of
        Inl (Inl (s, i, t)) \<Rightarrow> (2 * size s, 0)
      | Inl (Inr (d, ms, ob, t)) \<Rightarrow> (2 * size_list (size_prod (\<lambda>_. 0) size) ms + 1, 0)
      | Inr (Inl (s, xs, t)) \<Rightarrow> (2 * size s + 1, length xs)
      | Inr (Inr (Inl (s, ps, t))) \<Rightarrow> (2 * size s + 1, length ps)
      | Inr (Inr (Inr (bs, b, i, t))) \<Rightarrow> (2 * size_list (size_prod (\<lambda>_. 0) size) bs + 1, 0))")
  apply (simp_all add: wf_lex_prod)
  done

definition normalize :: "jsval \<Rightarrow> schema \<Rightarrow> jsval \<Rightarrow> schema_error + jsval \<times> jsval" where
  "normalize payload s tbl = normalize_visit s payload tbl"

subsection \<open>Denormalization\<close>

text \<open>
  Modelled from the spec: \<open>denormalize\<close> and the \<open>denormalize\<close> operation of each schema
  variant (section 4.3). An Entity is given a reference pair of its own type or a raw
  identifier; the entity is looked up in the snapshot and, when absent, the result is
  \<open>undefined\<close> and not found. When present, its nested fields are denormalized. The
  visited keys and the values realized for them are threaded through the whole traversal:
  a key is entered with the entity's own shallow record, so a cycle back to it gets that
  record, and a key met again is answered from there, found, without a second pass. An
  \<open>undefined\<close> where an Entity is expected is not found; any other value that names no
  entity of the schema passes through. In a Composite (and among the nested fields of an
  Entity) each member is denormalized by its schema, a \<open>null\<close> member is \<open>null\<close> and found
  whatever its schema, members without a schema are left as they are, and the flags are
  and-ed. Collections and Mappings denormalize every element or value and and the flags;
  the empty ones are found. A Union's discriminator is applied to the value as it is, the
  way normalization applies it; the branch it picks does the rest, and a value it cannot
  place passes through. The tombstone marker denormalizes as the entity it wraps.
\<close>

type_synonym cache = "string \<times> string \<Rightarrow> jsval option"

fun entity_key :: "string \<Rightarrow> jsval \<Rightarrow> string option" where
  "entity_key t (JRef t' k) = (if t' = t then Some k else None)"
| "entity_key t (JNum n) = Some (key_of_number n)"
| "entity_key t (JStr s) = Some s"
| "entity_key t x = None"

function (sequential) denormalize_visit :: "jsval \<Rightarrow> schema \<Rightarrow> jsval \<Rightarrow> cache \<Rightarrow> jsval \<times> bool \<times> cache"
  and denormalize_members ::
    "jsval \<Rightarrow> (string \<times> schema) list \<Rightarrow> jsval \<Rightarrow> cache \<Rightarrow> jsval \<times> bool \<times> cache"
  and denormalize_elements ::
    "jsval \<Rightarrow> schema \<Rightarrow> jsval list \<Rightarrow> cache \<Rightarrow> jsval list \<times> bool \<times> cache"
  and denormalize_values :: "jsval \<Rightarrow> schema \<Rightarrow> props \<Rightarrow> cache \<Rightarrow> props \<times> bool \<times> cache"
  and denormalize_branch ::
    "jsval \<Rightarrow> (string \<times> schema) list \<Rightarrow> string \<Rightarrow> jsval \<Rightarrow> cache \<Rightarrow> jsval \<times> bool \<times> cache"
where
  "denormalize_visit tbl (Entity t pkf nested) input c =
     (case entity_key t input of
        None \<Rightarrow> (input, input \<noteq> JUndefined, c)
      | Some k \<Rightarrow>
          (case lookup_entity tbl t k of
             None \<Rightarrow> (JUndefined, False, c)
           | Some row \<Rightarrow>
               (case c (t, k) of
                  Some v \<Rightarrow> (v, True, c)
                | None \<Rightarrow>
                    (case denormalize_members tbl nested row (c((t, k) \<mapsto> row)) of
                       (v, found, c') \<Rightarrow> (v, found, c'((t, k) \<mapsto> v))))))"
| "denormalize_visit tbl (Composite ms) input c = denormalize_members tbl ms input c"
| "denormalize_visit tbl (Collection s) input c =
     (case input of
        JArr r xs \<Rightarrow>
          (case denormalize_elements tbl s xs c of (ys, found, c') \<Rightarrow> (JArr r ys, found, c'))
      | _ \<Rightarrow> (input, True, c))"
| "denormalize_visit tbl (Mapping s) input c =
     (case input of
        JObj r ps \<Rightarrow>
          (case denormalize_values tbl s ps c of (qs, found, c') \<Rightarrow> (JObj r qs, found, c'))
      | _ \<Rightarrow> (input, True, c))"
| "denormalize_visit tbl (Union d bs) input c =
     (case d input of
        None \<Rightarrow> (input, True, c)
      | Some b \<Rightarrow> denormalize_branch tbl bs b input c)"
| "denormalize_visit tbl (Delete s) input c = denormalize_visit tbl s input c"
| "denormalize_members tbl [] obj c = (obj, True, c)"
| "denormalize_members tbl ((k, s) # ms) obj c =
     (case (if get_member obj k = JNull then (JNull, True, c)
            else denormalize_visit tbl s (get_member obj k) c) of
        (v, found, c') \<Rightarrow>
          (case denormalize_members tbl ms
                  (if has_member obj k then set_member obj k v else obj) c' of
             (res, found', c'') \<Rightarrow> (res, found \<and> found', c'')))"
| "denormalize_elements tbl s [] c = ([], True, c)"
| "denormalize_elements tbl s (x # xs) c =
     (case denormalize_visit tbl s x c of
        (y, found, c') \<Rightarrow>
          (case denormalize_elements tbl s xs c' of
             (ys, found', c'') \<Rightarrow> (y # ys, found \<and> found', c'')))"
| "denormalize_values tbl s [] c = ([], True, c)"
| "denormalize_values tbl s ((k, x) # ps) c =
     (case denormalize_visit tbl s x c of
        (y, found, c') \<Rightarrow>
          (case denormalize_values tbl s ps c' of
             (qs, found', c'') \<Rightarrow> ((k, y) # qs, found \<and> found', c'')))"
| "denormalize_branch tbl [] b input c = (input, True, c)"
| "denormalize_branch tbl ((n, s) # bs) b input c =
     (if n = b then denormalize_visit tbl s input c else denormalize_branch tbl bs b input c)"

  by pat_completeness auto

termination
  apply (relation "inv_image (less_than <*lex*> less_than)
    (\<lambda>x. case x of
        Inl (Inl (tb, s, i, c)) \<Rightarrow> (2 * size s, 0)
      | Inl (Inr (tb, ms, ob, c)) \<Rightarrow> (2 * size_list (size_prod (\<lambda>_. 0) size) ms + 1, 0)
      | Inr (Inl (tb, s, xs, c)) \<Rightarrow> (2 * size s + 1, length xs)
      | Inr (Inr (Inl (tb, s, ps, c))) \<Rightarrow> (2 * size s + 1, length ps)
      | Inr (Inr (Inr (tb, bs, b, i, c))) \<Rightarrow> (2 * size_list (size_prod (\<lambda>_. 0) size) bs + 1, 0))")
  apply (simp_all add: wf_lex_prod)
  done

definition denormalize :: "jsval \<Rightarrow> schema \<Rightarrow> jsval \<Rightarrow> jsval \<times> bool" where
  "denormalize input s tbl =
     (case denormalize_visit tbl s input Map.empty of (v, found, c) \<Rightarrow> (v, found))"

text \<open>
  The schema, records and table of the tests of the Object schema. \<open>schema.Entity\<close> is
  created there with a type name only; its primary key is the \<open>id\<close> attribute.
\<close>

definition userSchema :: schema where
  "userSchema = Entity ''user'' (\<lambda>ps. case map_of ps ''id'' of
       Some (JNum n) \<Rightarrow> Some (key_of_number n) | Some (JStr s) \<Rightarrow> Some s | _ \<Rightarrow> None) []"

definition nacho :: jsval where
  "nacho = JObj Plain [(''id'', JNum 1), (''name'', JStr ''Nacho'')]"

definition chancho :: jsval where
  "chancho = JObj Plain [(''id'', JNum 0), (''name'', JStr ''Chancho'')]"

definition entities :: jsval where
  "entities = JObj Plain [(''user'', JObj Plain [(''1'', nacho)])]"
section \<open>Cache keys of the shapes\<close>

text \<open>
  C1. For every subclass and every params object, the cache key of each shape is the verb,
  a space and the resolved URL: GET with \<open>url\<close> for the detail shape, GET with \<open>listUrl\<close>
  for the list shape, POST with \<open>listUrl\<close> for create, PUT, PATCH and DELETE with \<open>url\<close>
  for update, partial update and delete.
\<close>

theorem shape_fetch_keys:
  "getFetchKey (detailShape T) p = ''GET '' @ this_url T p \<and>
   getFetchKey (listShape pts T) p = ''GET '' @ this_listUrl pts T (Some p) \<and>
   getFetchKey (createShape pts T) p = ''POST '' @ this_listUrl pts T (Some p) \<and>
   getFetchKey (updateShape T) p = ''PUT '' @ this_url T p \<and>
   getFetchKey (partialUpdateShape T) p = ''PATCH '' @ this_url T p \<and>
   getFetchKey (deleteShape T) p = ''DELETE '' @ this_url T p"
  by (simp add: detailShape_def listShape_def createShape_def updateShape_def
      partialUpdateShape_def deleteShape_def)

text \<open>
  C2. The cache key of a mutation shape is computed from the params alone: the request
  body is an argument of \<open>fetch\<close> only, which hands it to the class's \<open>fetch\<close>, and never
  reaches \<open>getFetchKey\<close>. The key is determined by the verb and the resolved URL, so any
  two invocations of the same kind of mutation that resolve to the same URL have the same
  key, whatever their bodies, their params or their classes.
\<close>

theorem mutation_keys_collide:
  "(this_listUrl pts T (Some p) = this_listUrl pts T' (Some p') \<longrightarrow>
      getFetchKey (createShape pts T) p = getFetchKey (createShape pts T') p') \<and>
   (this_url T p = this_url T' p' \<longrightarrow>
      getFetchKey (updateShape T) p = getFetchKey (updateShape T') p' \<and>
      getFetchKey (partialUpdateShape T) p = getFetchKey (partialUpdateShape T') p' \<and>
      getFetchKey (deleteShape T) p = getFetchKey (deleteShape T') p') \<and>
   fetch (createShape pts T) p b = this_fetch T M_post (this_listUrl pts T (Some p)) b \<and>
   fetch (updateShape T) p b = this_fetch T M_put (this_url T p) b \<and>
   fetch (partialUpdateShape T) p b = this_fetch T M_patch (this_url T p) b"
  by (simp add: createShape_def updateShape_def partialUpdateShape_def deleteShape_def)

theorem mutation_keys_collide_witness:
  "this_listUrl (\<lambda>ps. []) UserResource (Some []) =
     this_listUrl (\<lambda>ps. []) (UserResource\<lparr>name := ''Member''\<rparr>) (Some []) \<and>
   getFetchKey (createShape (\<lambda>ps. []) UserResource) [] =
     getFetchKey (createShape (\<lambda>ps. []) (UserResource\<lparr>name := ''Member''\<rparr>)) [] \<and>
   this_url UserResource [(''url'', JStr ''/me'')] =
     this_url UserResource [(''url'', JStr ''/me''), (''n'', JNum 1)] \<and>
   getFetchKey (updateShape UserResource) [(''url'', JStr ''/me'')] =
     getFetchKey (updateShape UserResource) [(''url'', JStr ''/me''), (''n'', JNum 1)] \<and>
   getFetchKey (updateShape UserResource) [(''url'', JStr ''/me'')] = ''PUT /me''"
proof -
  have l: "this_listUrl (\<lambda>ps. []) UserResource (Some []) =
      this_listUrl (\<lambda>ps. []) (UserResource\<lparr>name := ''Member''\<rparr>) (Some [])"
    by (simp add: this_listUrl_def SimpleResource_listUrl_def UserResource_def Object_keys_def)
  have u: "this_url UserResource [(''url'', JStr ''/me'')] =
      this_url UserResource [(''url'', JStr ''/me''), (''n'', JNum 1)]"
    by (simp add: this_url_def SimpleResource_url_def UserResource_def hasOwnProperty_def
        get_prop_def)
  have k: "getFetchKey (updateShape UserResource) [(''url'', JStr ''/me'')] = ''PUT /me''"
    by (simp add: updateShape_def this_url_def SimpleResource_url_def UserResource_def
        hasOwnProperty_def get_prop_def)
  from l mutation_keys_collide [of "\<lambda>ps. []" UserResource "[]" "UserResource\<lparr>name := ''Member''\<rparr>" "[]"]
  have c: "getFetchKey (createShape (\<lambda>ps. []) UserResource) [] =
      getFetchKey (createShape (\<lambda>ps. []) (UserResource\<lparr>name := ''Member''\<rparr>)) []"
    by blast
  from u mutation_keys_collide [of "\<lambda>ps. []" UserResource "[(''url'', JStr ''/me'')]" UserResource
      "[(''url'', JStr ''/me''), (''n'', JNum 1)]"]
  have d: "getFetchKey (updateShape UserResource) [(''url'', JStr ''/me'')] =
      getFetchKey (updateShape UserResource) [(''url'', JStr ''/me''), (''n'', JNum 1)]"
    by blast
  from l u k c d show ?thesis by blast
qed

text \<open>
  C9. On a class that overrides neither, \<open>fetch\<close> and \<open>fetchResponse\<close> throw
  \<open>NotImplementedError\<close> for every method, url and optional body; no promise is returned.
\<close>

theorem fetch_not_implemented:
  "(fetch_override T = None \<longrightarrow>
      this_fetch T m u b = Inl NotImplementedError \<and> (\<forall>pr. this_fetch T m u b \<noteq> Inr pr)) \<and>
   (fetchResponse_override T = None \<longrightarrow>
      this_fetchResponse T m u b = Inl NotImplementedError \<and>
      (\<forall>pr. this_fetchResponse T m u b \<noteq> Inr pr))"
  by (simp add: this_fetch_def this_fetchResponse_def SimpleResource_fetch_def
      SimpleResource_fetchResponse_def)

theorem fetch_not_implemented_witness:
  "fetch_override UserResource = None \<and> fetchResponse_override UserResource = None \<and>
   this_fetch UserResource M_get ''/users/5'' None = Inl NotImplementedError \<and>
   this_fetchResponse UserResource M_post ''/users'' (Some (JStr ''{}'')) = Inl NotImplementedError"
proof -
  have f: "fetch_override UserResource = None"
    by (simp add: UserResource_def)
  have r: "fetchResponse_override UserResource = None"
    by (simp add: UserResource_def)
  from f fetch_not_implemented [of UserResource M_get "''/users/5''" None]
  have 1: "this_fetch UserResource M_get ''/users/5'' None = Inl NotImplementedError"
    by blast
  from r fetch_not_implemented [of UserResource M_post "''/users''" "Some (JStr ''{}'')"]
  have 2: "this_fetchResponse UserResource M_post ''/users'' (Some (JStr ''{}'')) =
      Inl NotImplementedError"
    by blast
  from f r 1 2 show ?thesis by blast
qed

text \<open>
  C10. On a class that inherits the static \<open>url\<close>: when the params have an own property
  \<open>url\<close> whose value is a non-empty string, that string is returned unchanged, whatever
  \<open>urlRoot\<close> and \<open>pk\<close> are; otherwise, when \<open>pk\<close> of the params is defined, the result is
  \<open>urlRoot\<close>, a slash unless \<open>urlRoot\<close> already ends with one, and the pk; otherwise the
  result is \<open>urlRoot\<close>.
\<close>

theorem url_resolution:
  assumes "url_override T = None"
  shows "(map_of p ''url'' = Some (JStr s) \<and> s \<noteq> [] \<longrightarrow> this_url T p = s) \<and>
    ((\<forall>s'. s' \<noteq> [] \<longrightarrow> map_of p ''url'' \<noteq> Some (JStr s')) \<longrightarrow>
       (pk T p = Some k \<longrightarrow>
          this_url T p =
            (if urlRoot T \<noteq> [] \<and> last (urlRoot T) = CHR ''/'' then urlRoot T @ k
             else urlRoot T @ ''/'' @ k)) \<and>
       (pk T p = None \<longrightarrow> this_url T p = urlRoot T))"
proof -
  have own: "this_url T p = s" if "map_of p ''url'' = Some (JStr s)" "s \<noteq> []"
    using that assms
    by (simp add: this_url_def SimpleResource_url_def hasOwnProperty_def get_prop_def)
  have guard: "\<not> (hasOwnProperty p ''url'' \<and> truthy (get_prop p ''url'')
        \<and> typeof (get_prop p ''url'') = ''string'')"
    if "\<forall>s'. s' \<noteq> [] \<longrightarrow> map_of p ''url'' \<noteq> Some (JStr s')"
  proof (cases "map_of p ''url''")
    case None
    then show ?thesis by (simp add: hasOwnProperty_def)
  next
    case (Some v)
    with that show ?thesis
      by (cases v) (auto simp: get_prop_def)
  qed
  have slash: "endsWith r ''/'' = (r \<noteq> [] \<and> last r = CHR ''/'')" for r
  proof (cases r rule: rev_cases)
    case Nil
    then show ?thesis by (simp add: endsWith_def)
  next
    case (snoc ys y)
    then show ?thesis by (simp add: endsWith_def)
  qed
  show ?thesis
    using own guard assms
    by (auto simp: this_url_def SimpleResource_url_def slash)
qed

theorem url_resolution_witness:
  "url_override UserResource = None \<and>
   this_url UserResource [(''id'', JStr ''5''), (''url'', JStr ''/me'')] = ''/me'' \<and>
   this_url UserResource [(''id'', JStr ''5''), (''url'', JStr [])] = ''/users/5'' \<and>
   this_url (UserResource\<lparr>urlRoot := ''/users/''\<rparr>) [(''id'', JStr ''5'')] = ''/users/5'' \<and>
   this_url UserResource [(''url'', JNum 7)] = ''/users''"
proof -
  have o: "url_override UserResource = None"
    by (simp add: UserResource_def)
  have o': "url_override (UserResource\<lparr>urlRoot := ''/users/''\<rparr>) = None"
    by (simp add: UserResource_def)
  have 1: "this_url UserResource [(''id'', JStr ''5''), (''url'', JStr ''/me'')] = ''/me''"
    using url_resolution [OF o, of "[(''id'', JStr ''5''), (''url'', JStr ''/me'')]" "''/me''"]
    by simp
  have 2: "this_url UserResource [(''id'', JStr ''5''), (''url'', JStr [])] = ''/users/5''"
    using url_resolution [OF o, of "[(''id'', JStr ''5''), (''url'', JStr [])]" _ "''5''"]
    by (simp add: UserResource_def id_pk_def)
  have 3: "this_url (UserResource\<lparr>urlRoot := ''/users/''\<rparr>) [(''id'', JStr ''5'')] = ''/users/5''"
    using url_resolution [OF o', of "[(''id'', JStr ''5'')]" _ "''5''"]
    by (simp add: UserResource_def id_pk_def)
  have 4: "this_url UserResource [(''url'', JNum 7)] = ''/users''"
    using url_resolution [OF o, of "[(''url'', JNum 7)]"]
    by (simp add: UserResource_def id_pk_def)
  from o 1 2 3 4 show ?thesis by blast
qed

section \<open>Properties of normalization and denormalization\<close>

subsection \<open>Member operations\<close>

lemma get_member_present: "get_member obj m \<noteq> JUndefined \<Longrightarrow> has_member obj m"
  by (cases obj) (auto split: option.splits)

lemma set_member_same: "has_member obj m \<Longrightarrow> set_member obj m (get_member obj m) = obj"
  by (cases obj) (auto split: option.splits simp: update_triv)

lemma key_of_number_0: "key_of_number 0 = ''0''"
  by (simp add: key_of_number_def decimal.simps)

lemma key_of_number_1: "key_of_number 1 = ''1''"
  by (simp add: key_of_number_def decimal.simps)

subsection \<open>Found and not found\<close>

text \<open>
  C3. A Composite with one Entity member: when the member names an entity that the table
  lacks, the view is not found (so \<open>{user: 1}\<close> against the empty table); when the member
  is the identifier \<open>0\<close> and the table holds the entity under the key \<open>0\<close>, the view is
  found and the member is the entity: the identifier \<open>0\<close> is looked up like any other.
\<close>

theorem missing_entity_not_found:
  "(entity_key t (get_member obj m) = Some k \<and> lookup_entity tbl t k = None \<longrightarrow>
      snd (denormalize obj (Composite [(m, Entity t pkf nested)]) tbl) = False) \<and>
   (get_member obj m = JNum 0 \<and> lookup_entity tbl t ''0'' = Some row \<longrightarrow>
      denormalize obj (Composite [(m, Entity t pkf [])]) tbl = (set_member obj m row, True))"
proof -
  have "get_member obj m \<noteq> JNull" if "entity_key t (get_member obj m) = Some k"
    using that by (cases "get_member obj m") auto
  then have a: "snd (denormalize obj (Composite [(m, Entity t pkf nested)]) tbl) = False"
    if "entity_key t (get_member obj m) = Some k" "lookup_entity tbl t k = None"
    using that by (simp add: denormalize_def)
  have b: "denormalize obj (Composite [(m, Entity t pkf [])]) tbl = (set_member obj m row, True)"
    if "get_member obj m = JNum 0" "lookup_entity tbl t ''0'' = Some row"
  proof -
    from that(1) have "has_member obj m"
      by (simp add: get_member_present)
    with that show ?thesis
      by (simp add: denormalize_def key_of_number_0)
  qed
  from a b show ?thesis by blast
qed

theorem missing_entity_not_found_witness:
  "snd (denormalize (JObj Plain [(''user'', JNum 1)]) (Composite [(''user'', userSchema)])
     (JObj Plain [])) = False \<and>
   denormalize (JObj Plain [(''user'', JNum 0)]) (Composite [(''user'', userSchema)])
     (JObj Plain [(''user'', JObj Plain [(''0'', chancho)])]) =
     (JObj Plain [(''user'', chancho)], True)"
proof -
  have 1: "entity_key ''user'' (get_member (JObj Plain [(''user'', JNum 1)]) ''user'') = Some ''1''
      \<and> lookup_entity (JObj Plain []) ''user'' ''1'' = None"
    by (simp add: key_of_number_1 lookup_entity_def entity_at_def)
  have 2: "get_member (JObj Plain [(''user'', JNum 0)]) ''user'' = JNum 0 \<and>
      lookup_entity (JObj Plain [(''user'', JObj Plain [(''0'', chancho)])]) ''user'' ''0'' =
        Some chancho"
    by (simp add: lookup_entity_def entity_at_def chancho_def)
  from 1 missing_entity_not_found [of "''user''" "JObj Plain [(''user'', JNum 1)]" "''user''"
      "''1''" "JObj Plain []"]
  have a: "snd (denormalize (JObj Plain [(''user'', JNum 1)]) (Composite [(''user'', userSchema)])
     (JObj Plain [])) = False"
    unfolding userSchema_def by blast
  from 2 missing_entity_not_found [of "''user''" "JObj Plain [(''user'', JNum 0)]" "''user''" _
      "JObj Plain [(''user'', JObj Plain [(''0'', chancho)])]" _ _ chancho]
  have b: "denormalize (JObj Plain [(''user'', JNum 0)]) (Composite [(''user'', userSchema)])
     (JObj Plain [(''user'', JObj Plain [(''0'', chancho)])]) =
     (set_member (JObj Plain [(''user'', JNum 0)]) ''user'' chancho, True)"
    unfolding userSchema_def by blast
  from a b show ?thesis by simp
qed

text \<open>
  C4. A Composite member that is \<open>null\<close> is found and stays \<open>null\<close>, whatever schema
  the member declares (an Object schema with a nested Entity among them) and whatever the
  table holds.
\<close>

theorem null_member_found:
  assumes "get_member obj m = JNull"
  shows "denormalize obj (Composite [(m, s)]) tbl = (obj, True) \<and>
    get_member (fst (denormalize obj (Composite [(m, s)]) tbl)) m = JNull"
proof -
  from assms have "has_member obj m"
    by (simp add: get_member_present)
  with assms have "set_member obj m JNull = obj"
    using set_member_same [of obj m] by simp
  with assms show ?thesis
    by (simp add: denormalize_def)
qed

theorem null_member_found_witness:
  "get_member (JObj Plain [(''item'', JNull)]) ''item'' = JNull \<and>
   denormalize (JObj Plain [(''item'', JNull)])
     (Composite [(''item'', Composite [(''user'', userSchema)])]) entities =
     (JObj Plain [(''item'', JNull)], True) \<and>
   denormalize (fromJS (JObj Plain [(''item'', JNull)]))
     (Composite [(''item'', Composite [(''user'', userSchema)])]) (fromJS entities) =
     (JObj Persistent [(''item'', JNull)], True)"
proof -
  have 1: "get_member (JObj Plain [(''item'', JNull)]) ''item'' = JNull"
    by simp
  have 2: "get_member (fromJS (JObj Plain [(''item'', JNull)])) ''item'' = JNull"
    by (simp add: fromJS_def)
  have 3: "fromJS (JObj Plain [(''item'', JNull)]) = JObj Persistent [(''item'', JNull)]"
    by (simp add: fromJS_def)
  from 1 3 null_member_found [OF 1, of "Composite [(''user'', userSchema)]" entities]
    null_member_found [OF 2, of "Composite [(''user'', userSchema)]" "fromJS entities"]
  show ?thesis by simp
qed


subsection \<open>Dropping members\<close>












subsection \<open>The schemas of the shapes\<close>

lemma entity_at_put_entity:
  assumes "is_table tbl"
  shows "entity_at (put_entity tbl t k v) t k = v"
proof -
  from assms obtain r es where tbl: "tbl = JObj r es"
    by (cases tbl) (auto simp: is_table_def)
  show ?thesis
  proof (cases "map_of es t")
    case None
    with tbl show ?thesis
      by (simp add: put_entity_def entity_at_def update_conv')
  next
    case (Some b)
    then have "(t, b) \<in> set es"
      by (rule map_of_SomeD)
    with assms tbl obtain r' rows where "b = JObj r' rows"
      by (cases b) (auto simp: is_table_def list_all_iff)
    with Some tbl show ?thesis
      by (simp add: put_entity_def entity_at_def update_conv')
  qed
qed

text \<open>
  C7. The delete shape is a mutation whose schema is the tombstone marker around the
  resource, not the resource itself. Normalizing a payload with a primary key under it
  leaves the removal marker at the entity's place in the table, where no record is found
  any more; under the resource's own schema the payload's attributes are merged into the
  entry instead.
\<close>

theorem deleteShape_schema:
  "type (deleteShape T) = Mutate \<and>
   schema (deleteShape T) = DeleteOf T \<and>
   schema (deleteShape T) \<noteq> schema (detailShape T) \<and>
   schema_of (schema (deleteShape T)) = Delete (schema_of (schema (detailShape T))) \<and>
   (is_table tbl \<and> pk T ps = Some k \<longrightarrow>
      (\<exists>tbl'. normalize (JObj r ps) (schema_of (schema (deleteShape T))) tbl =
           Inr (JRef (key T) k, tbl') \<and>
         entity_at tbl' (key T) k = JTombstone \<and> lookup_entity tbl' (key T) k = None) \<and>
      (\<exists>tbl'. normalize (JObj r ps) (schema_of (schema (detailShape T))) tbl =
           Inr (JRef (key T) k, tbl') \<and>
         entity_at tbl' (key T) k = merge_attrs (entity_at tbl (key T) k) (JObj r ps)))"
proof -
  have a: "type (deleteShape T) = Mutate \<and> schema (deleteShape T) = DeleteOf T \<and>
      schema (deleteShape T) \<noteq> schema (detailShape T) \<and>
      schema_of (schema (deleteShape T)) = Delete (schema_of (schema (detailShape T)))"
    by (simp add: deleteShape_def detailShape_def)
  have b: "\<exists>tbl'. normalize (JObj r ps) (schema_of (schema (deleteShape T))) tbl =
           Inr (JRef (key T) k, tbl') \<and>
         entity_at tbl' (key T) k = JTombstone \<and> lookup_entity tbl' (key T) k = None"
    if "is_table tbl" "pk T ps = Some k"
    using that entity_at_put_entity [OF that(1), of "key T" k JTombstone]
    by (simp add: deleteShape_def normalize_def nullish_def lookup_entity_def)
  have c: "\<exists>tbl'. normalize (JObj r ps) (schema_of (schema (detailShape T))) tbl =
           Inr (JRef (key T) k, tbl') \<and>
         entity_at tbl' (key T) k = merge_attrs (entity_at tbl (key T) k) (JObj r ps)"
    if "is_table tbl" "pk T ps = Some k"
    using that entity_at_put_entity [OF that(1), of "key T" k]
    by (simp add: detailShape_def normalize_def nullish_def add_entity_def)
  from a b c show ?thesis
    by blast
qed

theorem deleteShape_schema_witness:
  "is_table (JObj Plain [(''/users'', JObj Plain [(''1'', nacho)])]) \<and>
   pk UserResource [(''id'', JStr ''1'')] = Some ''1'' \<and>
   normalize (JObj Plain [(''id'', JStr ''1'')]) (schema_of (schema (deleteShape UserResource)))
     (JObj Plain [(''/users'', JObj Plain [(''1'', nacho)])]) =
     Inr (JRef ''/users'' ''1'', JObj Plain [(''/users'', JObj Plain [(''1'', JTombstone)])]) \<and>
   (\<exists>tbl'. normalize (JObj Plain [(''id'', JStr ''1'')])
       (schema_of (schema (deleteShape UserResource)))
       (JObj Plain [(''/users'', JObj Plain [(''1'', nacho)])]) = Inr (JRef ''/users'' ''1'', tbl') \<and>
      entity_at tbl' ''/users'' ''1'' = JTombstone)"
proof -
  have t: "is_table (JObj Plain [(''/users'', JObj Plain [(''1'', nacho)])])"
    by (simp add: is_table_def)
  have p: "pk UserResource [(''id'', JStr ''1'')] = Some ''1''"
    by (simp add: UserResource_def id_pk_def)
  have k: "key UserResource = ''/users''"
    by (simp add: key_def UserResource_def)
  have n: "normalize (JObj Plain [(''id'', JStr ''1'')]) (schema_of (schema (deleteShape UserResource)))
     (JObj Plain [(''/users'', JObj Plain [(''1'', nacho)])]) =
     Inr (JRef ''/users'' ''1'', JObj Plain [(''/users'', JObj Plain [(''1'', JTombstone)])])"
    by (simp add: deleteShape_def normalize_def nullish_def put_entity_def p k)
  from t p deleteShape_schema [of UserResource "JObj Plain [(''/users'', JObj Plain [(''1'', nacho)])]"
      "[(''id'', JStr ''1'')]" "''1''" Plain]
  have "\<exists>tbl'. normalize (JObj Plain [(''id'', JStr ''1'')])
       (schema_of (schema (deleteShape UserResource)))
       (JObj Plain [(''/users'', JObj Plain [(''1'', nacho)])]) = Inr (JRef ''/users'' ''1'', tbl') \<and>
      entity_at tbl' ''/users'' ''1'' = JTombstone"
    unfolding k by blast
  with t p n show ?thesis by blast
qed

text \<open>
  C8. The list shape is a read whose schema is the array shorthand around the resource,
  the Collection of the entity; the detail shape is a read whose schema is the resource,
  the bare Entity.
\<close>

theorem listShape_schema:
  "type (listShape pts T) = Read \<and>
   schema (listShape pts T) = ArrayOf (This T) \<and>
   schema_of (schema (listShape pts T)) = Collection (schema_of (schema (detailShape T))) \<and>
   type (detailShape T) = Read \<and>
   schema (detailShape T) = This T \<and>
   schema_of (schema (detailShape T)) = Entity (key T) (pk T) []"
  by (simp add: listShape_def detailShape_def)

end
